theory Spec2Isabelle
  imports Complex_Main "HOL-Library.Sublist"
begin

text \<open>
  A model of \<open>client/script.js\<close>, the script of the sales dashboard: the filter over
  the fetched order records, the aggregates shown as key metrics and charts, the category
  control, and the handling of the fetch result. The page is a record that every function
  of the script takes and returns; a function that can throw returns a sum.
\<close>

section \<open>JavaScript values used by the dashboard script\<close>

text \<open>
  A field of a fetched record that the script reads without converting it: the property
  may be missing (\<open>Undefined\<close>), JSON \<open>null\<close>, or a string. Strings are ASCII text.
\<close>

datatype jsval = Undefined | Null | Str string

text \<open>
  A JavaScript number: not-a-number, the two infinities, or a finite value. Finite values
  are the rationals they denote and arithmetic on them is exact: binary64 rounding,
  overflow to an infinity and the sign of zero are not represented.
\<close>

datatype jsnum = NaN | PInf | NInf | Num rat

fun js_add :: "jsnum \<Rightarrow> jsnum \<Rightarrow> jsnum" where
  "js_add NaN _ = NaN"
| "js_add _ NaN = NaN"
| "js_add PInf NInf = NaN"
| "js_add NInf PInf = NaN"
| "js_add PInf _ = PInf"
| "js_add _ PInf = PInf"
| "js_add NInf _ = NInf"
| "js_add _ NInf = NInf"
| "js_add (Num a) (Num b) = Num (a + b)"

fun js_neg :: "jsnum \<Rightarrow> jsnum" where
  "js_neg NaN = NaN"
| "js_neg PInf = NInf"
| "js_neg NInf = PInf"
| "js_neg (Num a) = Num (- a)"

definition js_sub :: "jsnum \<Rightarrow> jsnum \<Rightarrow> jsnum" where
  "js_sub a b = js_add a (js_neg b)"

text \<open>\<open>a / n\<close> for a count \<open>n\<close>; the script divides only when the count is positive.\<close>

fun js_div :: "jsnum \<Rightarrow> nat \<Rightarrow> jsnum" where
  "js_div NaN _ = NaN"
| "js_div PInf _ = PInf"
| "js_div NInf _ = NInf"
| "js_div (Num a) n =
     (if n = 0 then (if a = 0 then NaN else if 0 < a then PInf else NInf)
      else Num (a / of_nat n))"

text \<open>The relational operator \<open>a > b\<close> on numbers: false as soon as one side is NaN.\<close>

fun js_gt :: "jsnum \<Rightarrow> jsnum \<Rightarrow> bool" where
  "js_gt (Num a) (Num b) = (b < a)"
| "js_gt PInf (Num _) = True"
| "js_gt PInf NInf = True"
| "js_gt (Num _) NInf = True"
| "js_gt _ _ = False"

text \<open>
  \<open>a > b\<close> where either side may be \<open>undefined\<close> (a property that does not exist):
  \<open>undefined\<close> converts to NaN.
\<close>

definition ToNumber :: "jsnum option \<Rightarrow> jsnum" where
  "ToNumber v = (case v of None \<Rightarrow> NaN | Some x \<Rightarrow> x)"

definition js_gt_opt :: "jsnum option \<Rightarrow> jsnum option \<Rightarrow> bool" where
  "js_gt_opt a b = js_gt (ToNumber a) (ToNumber b)"

text \<open>\<open>v || 0\<close> on a property read: \<open>undefined\<close>, NaN and zero are falsy.\<close>

fun or_zero :: "jsnum option \<Rightarrow> jsnum" where
  "or_zero None = Num 0"
| "or_zero (Some NaN) = Num 0"
| "or_zero (Some (Num a)) = (if a = 0 then Num 0 else Num a)"
| "or_zero (Some x) = x"

text \<open>\<open>v || d\<close> on a field: \<open>undefined\<close>, \<open>null\<close> and the empty string are falsy.\<close>

fun or_default :: "jsval \<Rightarrow> string \<Rightarrow> string" where
  "or_default (Str s) d = (if s = [] then d else s)"
| "or_default _ d = d"

subsection \<open>Decimal digits\<close>

definition is_digit :: "char \<Rightarrow> bool" where
  "is_digit c = (c \<in> set ''0123456789'')"

definition digit_val :: "char \<Rightarrow> nat" where
  "digit_val c = of_char c - of_char CHR ''0''"

definition digits_val :: "string \<Rightarrow> nat" where
  "digits_val s = foldl (\<lambda>n c. 10 * n + digit_val c) 0 s"

definition digit_char :: "nat \<Rightarrow> char" where
  "digit_char d = ''0123456789'' ! d"

function nat_digits :: "nat \<Rightarrow> string" where
  "nat_digits n = (if n < 10 then [digit_char n] else nat_digits (n div 10) @ [digit_char (n mod 10)])"
  by pat_completeness auto
termination
  by (relation "measure id") auto

declare nat_digits.simps [simp del]

subsection \<open>\<open>parseFloat\<close>\<close>

text \<open>
  \<open>parseFloat\<close> skips leading white space and converts the longest prefix that is a
  decimal literal: an optional sign, then \<open>Infinity\<close> or digits with an optional
  fraction and an optional exponent. An exponent mark without digits is not part of the
  prefix. With no such prefix the result is NaN.
\<close>

definition is_space :: "char \<Rightarrow> bool" where
  "is_space c = (c \<in> {CHR '' '', CHR 0x09, CHR 0x0A, CHR 0x0B, CHR 0x0C, CHR 0x0D})"

definition read_sign :: "string \<Rightarrow> bool \<times> string" where
  "read_sign s =
     (case s of
        c # r \<Rightarrow> if c = CHR ''-'' then (True, r) else if c = CHR ''+'' then (False, r) else (False, s)
      | [] \<Rightarrow> (False, s))"

definition read_exponent :: "string \<Rightarrow> int" where
  "read_exponent s =
     (case s of
        c # r \<Rightarrow>
          if c = CHR ''e'' \<or> c = CHR ''E'' then
            (let (neg, t) = read_sign r; ds = takeWhile is_digit t
             in if ds = [] then 0
                else if neg then - int (digits_val ds) else int (digits_val ds))
          else 0
      | [] \<Rightarrow> 0)"

definition pow10 :: "int \<Rightarrow> rat" where
  "pow10 e = (if 0 \<le> e then 10 ^ nat e else 1 / 10 ^ nat (- e))"

definition parseFloat :: "string \<Rightarrow> jsnum" where
  "parseFloat s =
     (let (neg, u) = read_sign (dropWhile is_space s)
      in if take 8 u = ''Infinity'' then (if neg then NInf else PInf)
         else
           let ip = takeWhile is_digit u;
               r1 = dropWhile is_digit u;
               fp = (case r1 of c # r \<Rightarrow> if c = CHR ''.'' then takeWhile is_digit r else [] | [] \<Rightarrow> []);
               r2 = (case r1 of c # r \<Rightarrow> if c = CHR ''.'' then dropWhile is_digit r else r1 | [] \<Rightarrow> [])
           in if ip = [] \<and> fp = [] then NaN
              else
                let m = (of_nat (digits_val ip) + of_nat (digits_val fp) / 10 ^ length fp)
                          * pow10 (read_exponent r2)
                in Num (if neg then - m else m))"

subsection \<open>\<open>Number.prototype.toFixed\<close> and template literals\<close>

text \<open>
  The host environment. \<open>Date_parse\<close> is the time value, in milliseconds since the epoch,
  that \<open>new Date(s)\<close> gives a string, \<open>None\<close> for an invalid date; beyond the ISO forms
  the accepted strings differ between engines. \<open>Number_toString\<close> is the exponent
  notation \<open>toFixed\<close> falls back to from \<open>10^21\<close> on, whose digits are those of the
  binary64 value. \<open>flatpickr_parse\<close> is the date a flatpickr instance selects for a
  \<open>defaultDate\<close> string in format \<open>Y-m-d\<close>: midnight of that day in the local time zone.
\<close>

record runtime =
  Date_parse :: "string \<Rightarrow> int option"
  Number_toString :: "rat \<Rightarrow> string"
  flatpickr_parse :: "string \<Rightarrow> int option"

text \<open>
  \<open>x.toFixed(f)\<close>: NaN and the infinities print by name; a finite value prints its sign
  and the integer \<open>n\<close> nearest to \<open>|x| * 10^f\<close> (the larger one of two), with a point
  before the last \<open>f\<close> digits.
\<close>

definition fixed_digits :: "nat \<Rightarrow> nat \<Rightarrow> string" where
  "fixed_digits f n =
     (let m = nat_digits n;
          m' = (if length m \<le> f then replicate (f + 1 - length m) CHR ''0'' @ m else m)
      in if f = 0 then m
         else take (length m' - f) m' @ ''.'' @ drop (length m' - f) m')"

definition toFixed :: "runtime \<Rightarrow> nat \<Rightarrow> jsnum \<Rightarrow> string" where
  "toFixed rt f x =
     (case x of
        NaN \<Rightarrow> ''NaN''
      | PInf \<Rightarrow> ''Infinity''
      | NInf \<Rightarrow> ''-Infinity''
      | Num q \<Rightarrow>
          (let s = (if q < 0 then ''-'' else ''''); a = \<bar>q\<bar>
           in if 10 ^ 21 \<le> a then s @ Number_toString rt a
              else s @ fixed_digits f (nat \<lfloor>a * 10 ^ f + 1 / 2\<rfloor>)))"

section \<open>Order records and their dates\<close>

text \<open>
  One record of the array fetched from \<open>/data\<close>. The script calls \<open>split\<close> on
  \<open>order_date\<close> and \<open>parseFloat\<close> on \<open>total\<close>, so both are strings; the product and
  category fields are read as they come.
\<close>

record order_rec =
  order_id :: string
  order_date :: string
  customer_id :: string
  product_names :: jsval
  categories :: jsval
  total_field :: string

text \<open>\<open>s.split(c)\<close> and \<open>parts.join(sep)\<close>.\<close>

fun split_str :: "char \<Rightarrow> string \<Rightarrow> string list" where
  "split_str c [] = [] # []"
| "split_str c (x # xs) =
     (if x = c then [] # split_str c xs
      else (case split_str c xs of w # ws \<Rightarrow> (x # w) # ws | [] \<Rightarrow> [x] # []))"

fun join_str :: "string \<Rightarrow> string list \<Rightarrow> string" where
  "join_str sep [] = []"
| "join_str sep [w] = w"
| "join_str sep (w # ws) = w @ sep @ join_str sep ws"

text \<open>\<open>item.order_date.split('/').reverse().join('-')\<close>: \<open>15/01/2024\<close> becomes \<open>2024-01-15\<close>.\<close>

definition reversed_date :: "string \<Rightarrow> string" where
  "reversed_date s = join_str ''-'' (rev (split_str CHR ''/'' s))"

definition itemDate :: "runtime \<Rightarrow> order_rec \<Rightarrow> int option" where
  "itemDate rt item = Date_parse rt (reversed_date (order_date item))"

text \<open>
  \<open>a >= b\<close> and \<open>a <= b\<close> on two dates compare their time values. An invalid date has
  the time value NaN, and so has \<open>undefined\<close> (no date selected in a picker): both are
  \<open>None\<close>, and every comparison with them is false.
\<close>

definition date_ge :: "int option \<Rightarrow> int option \<Rightarrow> bool" where
  "date_ge a b = (case a of None \<Rightarrow> False | Some x \<Rightarrow> (case b of None \<Rightarrow> False | Some y \<Rightarrow> y \<le> x))"

definition date_le :: "int option \<Rightarrow> int option \<Rightarrow> bool" where
  "date_le a b = (case a of None \<Rightarrow> False | Some x \<Rightarrow> (case b of None \<Rightarrow> False | Some y \<Rightarrow> x \<le> y))"

text \<open>The filter of \<open>filterAndRenderData\<close>; \<open>===\<close> holds between a field and the selected
  string only when the field is that string.\<close>

definition filteredData ::
  "runtime \<Rightarrow> order_rec list \<Rightarrow> int option \<Rightarrow> int option \<Rightarrow> string \<Rightarrow> order_rec list" where
  "filteredData rt data startDate endDate selectedCategory =
     filter (\<lambda>item.
        date_ge (itemDate rt item) startDate \<and>
        date_le (itemDate rt item) endDate \<and>
        (selectedCategory = ''all'' \<or> categories item = Str selectedCategory)) data"

subsection \<open>Calendar dates\<close>

text \<open>
  Days since 1970-01-01 of a date of the proleptic Gregorian calendar and back, and the
  text \<open>toISOString\<close> prints for a time value in milliseconds.
\<close>

definition days_from_civil :: "int \<Rightarrow> int \<Rightarrow> int \<Rightarrow> int" where
  "days_from_civil y m d =
     (let y' = (if m \<le> 2 then y - 1 else y);
          era = y' div 400;
          yoe = y' - era * 400;
          doy = (153 * (if 2 < m then m - 3 else m + 9) + 2) div 5 + d - 1;
          doe = yoe * 365 + yoe div 4 - yoe div 100 + doy
      in era * 146097 + doe - 719468)"

definition civil_from_days :: "int \<Rightarrow> int \<times> int \<times> int" where
  "civil_from_days z =
     (let z' = z + 719468;
          era = z' div 146097;
          doe = z' - era * 146097;
          yoe = (doe - doe div 1460 + doe div 36524 - doe div 146096) div 365;
          doy = doe - (365 * yoe + yoe div 4 - yoe div 100);
          mp = (5 * doy + 2) div 153;
          d = doy - (153 * mp + 2) div 5 + 1;
          m = (if mp < 10 then mp + 3 else mp - 9);
          y = yoe + era * 400
      in (if m \<le> 2 then y + 1 else y, m, d))"

definition pad_digits :: "nat \<Rightarrow> int \<Rightarrow> string" where
  "pad_digits w n = (let ds = nat_digits (nat n) in replicate (w - length ds) CHR ''0'' @ ds)"

definition toISOString :: "int \<Rightarrow> string" where
  "toISOString t =
     (let day = t div 86400000;
          ms = t mod 86400000;
          (y, m, d) = civil_from_days day;
          year = (if 0 \<le> y \<and> y \<le> 9999 then pad_digits 4 y
                  else (if y < 0 then ''-'' else ''+'') @ pad_digits 6 \<bar>y\<bar>)
      in year @ ''-'' @ pad_digits 2 m @ ''-'' @ pad_digits 2 d @ ''T''
           @ pad_digits 2 (ms div 3600000) @ '':'' @ pad_digits 2 (ms div 60000 mod 60)
           @ '':'' @ pad_digits 2 (ms div 1000 mod 60) @ ''.'' @ pad_digits 3 (ms mod 1000)
           @ ''Z'')"

definition days_in_month :: "int \<Rightarrow> int \<Rightarrow> int" where
  "days_in_month y m =
     (if m = 2 then (if y mod 4 = 0 \<and> (y mod 100 \<noteq> 0 \<or> y mod 400 = 0) then 29 else 28)
      else if m \<in> {4, 6, 9, 11} then 30 else 31)"

text \<open>
  A parser for the date-only form \<open>YYYY-MM-DD\<close> of the ECMAScript date-time format, read
  as midnight UTC; every other string is an invalid date. It is the parser of
  \<open>utc_runtime\<close>, an environment whose local time zone is UTC.
\<close>

definition parse_iso_date :: "string \<Rightarrow> int option" where
  "parse_iso_date s =
     (case split_str CHR ''-'' s of
        [ys, ms, ds] \<Rightarrow>
          if length ys = 4 \<and> length ms = 2 \<and> length ds = 2
             \<and> list_all is_digit ys \<and> list_all is_digit ms \<and> list_all is_digit ds
          then
            (let y = int (digits_val ys); m = int (digits_val ms); d = int (digits_val ds)
             in if 1 \<le> m \<and> m \<le> 12 \<and> 1 \<le> d \<and> d \<le> days_in_month y m
                then Some (days_from_civil y m d * 86400000) else None)
          else None
      | _ \<Rightarrow> None)"

text \<open>Exponent notation of the integer part of a value, trailing zeros dropped.\<close>

definition exponent_notation :: "rat \<Rightarrow> string" where
  "exponent_notation q =
     (let ds = nat_digits (nat \<lfloor>q\<rfloor>);
          sig = rev (dropWhile (\<lambda>c. c = CHR ''0'') (rev (tl ds)))
      in hd ds # (if sig = [] then [] else CHR ''.'' # sig) @ ''e+'' @ nat_digits (length ds - 1))"

definition utc_runtime :: runtime where
  "utc_runtime =
     \<lparr>Date_parse = parse_iso_date, Number_toString = exponent_notation,
      flatpickr_parse = parse_iso_date\<rparr>"

section \<open>Objects and sets\<close>

text \<open>
  An object used as a dictionary: its own properties in creation order. Reading a key
  that is not an own property gives \<open>undefined\<close> (\<open>None\<close>); assigning to an existing key
  keeps its place, assigning to a new key appends it.

  The script's accumulators are object literals, so a read also sees the properties
  inherited from \<open>Object.prototype\<close>. The model has own properties only: it describes
  the script for keys outside \<open>Object_prototype_names\<close>.
\<close>

definition obj_get :: "(string \<times> 'v) list \<Rightarrow> string \<Rightarrow> 'v option" where
  "obj_get obj k = map_of obj k"

fun obj_set :: "string \<Rightarrow> 'v \<Rightarrow> (string \<times> 'v) list \<Rightarrow> (string \<times> 'v) list" where
  "obj_set k v [] = [(k, v)]"
| "obj_set k v (p # ps) = (if fst p = k then (k, v) # ps else p # obj_set k v ps)"


text \<open>
  \<open>Object.entries\<close> and \<open>Object.keys\<close> list the keys that are array indices (canonical
  decimal numerals below \<open>2^32 - 1\<close>) first, in ascending numeric order, and then the
  other keys in creation order.
\<close>

definition is_array_index :: "string \<Rightarrow> bool" where
  "is_array_index s =
     (s \<noteq> [] \<and> list_all is_digit s \<and> (s = ''0'' \<or> hd s \<noteq> CHR ''0'')
      \<and> int (digits_val s) < 4294967295)"

definition Object_entries :: "(string \<times> 'v) list \<Rightarrow> (string \<times> 'v) list" where
  "Object_entries obj =
     sort_key (\<lambda>p. digits_val (fst p)) (filter (\<lambda>p. is_array_index (fst p)) obj)
       @ filter (\<lambda>p. \<not> is_array_index (fst p)) obj"

definition Object_keys :: "(string \<times> 'v) list \<Rightarrow> string list" where
  "Object_keys obj = map fst (Object_entries obj)"

text \<open>A \<open>Set\<close> keeps its values in insertion order; adding a value it has changes nothing.\<close>

definition Set_add :: "'a list \<Rightarrow> 'a \<Rightarrow> 'a list" where
  "Set_add s x = (if x \<in> set s then s else s @ [x])"

definition new_Set :: "'a list \<Rightarrow> 'a list" where
  "new_Set xs = foldl Set_add [] xs"

text \<open>
  \<open>Array.prototype.sort\<close> with a comparator: stable, \<open>a\<close> stays before \<open>b\<close> unless
  \<open>cmp a b > 0\<close>, and a comparator result of NaN counts as zero. For a comparator that is
  not a consistent order the resulting order depends on the engine; the model is an
  insertion sort.
\<close>

fun sort_insert :: "('a \<Rightarrow> 'a \<Rightarrow> jsnum) \<Rightarrow> 'a \<Rightarrow> 'a list \<Rightarrow> 'a list" where
  "sort_insert cmp x [] = [x]"
| "sort_insert cmp x (y # ys) =
     (if js_gt (cmp x y) (Num 0) then y # sort_insert cmp x ys else x # y # ys)"

definition Array_sort :: "('a \<Rightarrow> 'a \<Rightarrow> jsnum) \<Rightarrow> 'a list \<Rightarrow> 'a list" where
  "Array_sort cmp xs = foldr (sort_insert cmp) xs []"

section \<open>Aggregates\<close>

text \<open>The three reductions of \<open>updateKeyMetrics\<close>.\<close>

definition totalRevenue :: "order_rec list \<Rightarrow> jsnum" where
  "totalRevenue data = foldl (\<lambda>acc item. js_add acc (parseFloat (total_field item))) (Num 0) data"

definition averageOrderValue :: "order_rec list \<Rightarrow> jsnum" where
  "averageOrderValue data =
     (if 0 < length data then js_div (totalRevenue data) (length data) else Num 0)"

definition revenueByCategory :: "order_rec list \<Rightarrow> (string \<times> jsnum) list" where
  "revenueByCategory data =
     foldl (\<lambda>acc item.
        let category = or_default (categories item) ''Uncategorized''
        in obj_set category (js_add (or_zero (obj_get acc category)) (parseFloat (total_field item))) acc)
       [] data"

definition topCategory :: "order_rec list \<Rightarrow> string" where
  "topCategory data =
     (let rbc = revenueByCategory data
      in foldl (\<lambda>a b. if js_gt_opt (obj_get rbc a) (obj_get rbc b) then a else b)
           ''None'' (Object_keys rbc))"

text \<open>The reductions of \<open>drawChart\<close>: per category of the filtered set, and per product.\<close>

definition chartCategories :: "order_rec list \<Rightarrow> jsval list" where
  "chartCategories data = new_Set (map categories data)"

definition chartCategoryRevenue :: "order_rec list \<Rightarrow> jsval \<Rightarrow> jsnum" where
  "chartCategoryRevenue data category =
     foldl (\<lambda>acc item. js_add acc (parseFloat (total_field item))) (Num 0)
       (filter (\<lambda>item. categories item = category) data)"

definition productRevenue :: "order_rec list \<Rightarrow> (string \<times> jsnum) list" where
  "productRevenue data =
     foldl (\<lambda>acc item.
        let productName = or_default (product_names item) ''Unknown Product''
        in obj_set productName
             (js_add (or_zero (obj_get acc productName)) (parseFloat (total_field item))) acc)
       [] data"

definition topProducts :: "order_rec list \<Rightarrow> (string \<times> jsnum) list" where
  "topProducts data =
     take 10 (Array_sort (\<lambda>a b. js_sub (snd b) (snd a)) (Object_entries (productRevenue data)))"

section \<open>The page\<close>

text \<open>
  A chart built with \<open>new Chart(ctx, config)\<close>: the canvas it draws on, its configuration
  (type, labels, the one dataset, horizontal bars or not) and whether \<open>destroy()\<close> has
  been called on it.
\<close>

record chart =
  canvas :: string
  chart_kind :: string
  labels :: "jsval list"
  dataset_label :: string
  dataset :: "jsnum list"
  horizontal :: bool
  destroyed :: bool

text \<open>An \<open>option\<close> element of the category control.\<close>

record html_option =
  option_text :: string
  option_value :: string
  defaultSelected :: bool
  selected :: bool

datatype js_error = TypeError | RangeError | FetchError string

text \<open>
  The state the script reads and writes. \<open>app_html\<close> is the content of the element
  \<open>app\<close>, \<open>None\<close> when the page has no such element (the script tests for it). A date
  picker is \<open>None\<close> until flatpickr has been attached to it; then it holds its first
  selected date, if any. \<open>charts\<close> are all the chart objects constructed so far and
  \<open>chartInstance\<close> is the script's global variable, a reference into them.
  \<open>change_handlers\<close> are the controls whose change re-runs \<open>filterAndRenderData\<close>.
\<close>

record page =
  app_html :: "string option"
  console_error :: "js_error list"
  chart_type_selector :: string
  start_date :: "int option option"
  end_date :: "int option option"
  category_options :: "html_option list"
  category_value :: string
  change_handlers :: "string list"
  total_revenue :: string
  total_orders :: string
  average_order_value :: string
  top_category :: string
  charts :: "chart list"
  chartInstance :: "nat option"
  data_table :: "jsval list list option"

subsection \<open>\<open>updateKeyMetrics\<close>\<close>

definition updateKeyMetrics :: "runtime \<Rightarrow> order_rec list \<Rightarrow> page \<Rightarrow> page" where
  "updateKeyMetrics rt data p =
     p\<lparr>total_revenue := ''$'' @ toFixed rt 2 (totalRevenue data),
       total_orders := nat_digits (length data),
       average_order_value := ''$'' @ toFixed rt 2 (averageOrderValue data),
       top_category := (if topCategory data = [] then ''None'' else topCategory data)\<rparr>"

subsection \<open>\<open>drawChart\<close>\<close>

text \<open>\<open>if (chartInstance) chartInstance.destroy()\<close>: the variable keeps its reference.\<close>

definition destroy_previous :: "page \<Rightarrow> page" where
  "destroy_previous p =
     (case chartInstance p of
        None \<Rightarrow> p
      | Some i \<Rightarrow>
          (case drop i (charts p) of
             c # _ \<Rightarrow> p\<lparr>charts := (charts p)[i := c\<lparr>destroyed := True\<rparr>]\<rparr>
           | [] \<Rightarrow> p))"

text \<open>\<open>chartInstance = new Chart(ctx, config)\<close>.\<close>

definition new_Chart :: "chart \<Rightarrow> page \<Rightarrow> page" where
  "new_Chart c p = p\<lparr>charts := charts p @ [c], chartInstance := Some (length (charts p))\<rparr>"

text \<open>The configuration of each of the three chart modes.\<close>

definition revenueOverTime_chart :: "order_rec list \<Rightarrow> string \<Rightarrow> chart" where
  "revenueOverTime_chart data elementId =
     \<lparr>canvas = elementId, chart_kind = ''line'',
      labels = map (\<lambda>item. Str (order_date item)) data,
      dataset_label = ''Revenue Over Time'',
      dataset = map (\<lambda>item. parseFloat (total_field item)) data,
      horizontal = False, destroyed = False\<rparr>"

definition revenueByCategory_chart :: "order_rec list \<Rightarrow> string \<Rightarrow> chart" where
  "revenueByCategory_chart data elementId =
     \<lparr>canvas = elementId, chart_kind = ''bar'',
      labels = chartCategories data,
      dataset_label = ''Revenue by Category'',
      dataset = map (chartCategoryRevenue data) (chartCategories data),
      horizontal = False, destroyed = False\<rparr>"

definition topProducts_chart :: "order_rec list \<Rightarrow> string \<Rightarrow> chart" where
  "topProducts_chart data elementId =
     \<lparr>canvas = elementId, chart_kind = ''bar'',
      labels = map (\<lambda>item. Str (fst item)) (topProducts data),
      dataset_label = ''Top Products by Revenue'',
      dataset = map snd (topProducts data),
      horizontal = True, destroyed = False\<rparr>"

text \<open>The previous chart is destroyed first; a mode that is none of the three builds nothing.\<close>

definition drawChart :: "order_rec list \<Rightarrow> string \<Rightarrow> string \<Rightarrow> page \<Rightarrow> page" where
  "drawChart data elementId chartType p =
     (let p1 = destroy_previous p
      in if chartType = ''revenueOverTime'' then new_Chart (revenueOverTime_chart data elementId) p1
         else if chartType = ''revenueByCategory'' then new_Chart (revenueByCategory_chart data elementId) p1
         else if chartType = ''topProducts'' then new_Chart (topProducts_chart data elementId) p1
         else p1)"

subsection \<open>\<open>populateDataTable\<close> and \<open>populateCategoryFilter\<close>\<close>

text \<open>The table is destroyed if there is one and rebuilt from the rows given.\<close>

definition table_row :: "runtime \<Rightarrow> order_rec \<Rightarrow> jsval list" where
  "table_row rt item =
     [Str (order_id item), Str (order_date item), Str (customer_id item),
      product_names item, categories item,
      Str (''$'' @ toFixed rt 2 (parseFloat (total_field item)))]"

definition populateDataTable :: "runtime \<Rightarrow> order_rec list \<Rightarrow> page \<Rightarrow> page" where
  "populateDataTable rt data p = p\<lparr>data_table := Some (map (table_row rt) data)\<rparr>"

text \<open>The conversion of an argument to the string a DOM interface takes.\<close>

fun DOMString :: "jsval \<Rightarrow> string" where
  "DOMString Undefined = ''undefined''"
| "DOMString Null = ''null''"
| "DOMString (Str s) = s"

text \<open>
  \<open>new Option(text, value, defaultSelected, selected)\<close>: an argument that is
  \<open>undefined\<close> counts as not given, so the text is empty, and an \<open>option\<close> without a
  value has its text as value.
\<close>

definition new_Option :: "jsval \<Rightarrow> jsval \<Rightarrow> bool \<Rightarrow> bool \<Rightarrow> html_option" where
  "new_Option text v ds sel =
     (let t = (case text of Undefined \<Rightarrow> [] | _ \<Rightarrow> DOMString text)
      in \<lparr>option_text = t,
          option_value = (case v of Undefined \<Rightarrow> t | _ \<Rightarrow> DOMString v),
          defaultSelected = ds, selected = sel\<rparr>)"

text \<open>
  The control is emptied and refilled; the first option is the only one created
  selected, so the control's value is \<open>all\<close> afterwards.
\<close>

definition populateCategoryFilter :: "order_rec list \<Rightarrow> page \<Rightarrow> page" where
  "populateCategoryFilter data p =
     (let cleared = p\<lparr>category_options := []\<rparr>;
          first = cleared\<lparr>category_options :=
                    category_options cleared @ [new_Option (Str ''All Categories'') (Str ''all'') True True],
                    category_value := ''all''\<rparr>
      in foldl (\<lambda>q category.
            q\<lparr>category_options := category_options q @ [new_Option category category False False]\<rparr>)
           first (new_Set (map categories data)))"

subsection \<open>\<open>filterAndRenderData\<close>\<close>

text \<open>
  A function that throws returns the error and the page as it was at the throw.
  Reading \<open>_flatpickr.selectedDates\<close> of a control without a picker is a TypeError.
\<close>

definition filterAndRenderData :: "runtime \<Rightarrow> order_rec list \<Rightarrow> page \<Rightarrow> js_error \<times> page + page" where
  "filterAndRenderData rt data p =
     (case start_date p of
        None \<Rightarrow> Inl (TypeError, p)
      | Some startDate \<Rightarrow>
          (case end_date p of
             None \<Rightarrow> Inl (TypeError, p)
           | Some endDate \<Rightarrow>
               (let fd = filteredData rt data startDate endDate (category_value p)
                in Inr (populateDataTable rt fd
                         (drawChart fd ''chart-canvas'' (chart_type_selector p)
                           (updateKeyMetrics rt fd p))))))"

subsection \<open>\<open>setupFilters\<close>, \<open>initializeDashboard\<close> and the start of the page\<close>

text \<open>
  \<open>new Date(Math.min(...dates))\<close> and \<open>new Date(Math.max(...dates))\<close>: with an invalid
  date among the arguments, or with no argument, the result is an invalid date.
\<close>

fun min_date :: "int option list \<Rightarrow> int option" where
  "min_date [] = None"
| "min_date [a] = a"
| "min_date (a # b # r) =
     (case a of None \<Rightarrow> None
      | Some x \<Rightarrow> (case min_date (b # r) of None \<Rightarrow> None | Some y \<Rightarrow> Some (min x y)))"

fun max_date :: "int option list \<Rightarrow> int option" where
  "max_date [] = None"
| "max_date [a] = a"
| "max_date (a # b # r) =
     (case a of None \<Rightarrow> None
      | Some x \<Rightarrow> (case max_date (b # r) of None \<Rightarrow> None | Some y \<Rightarrow> Some (max x y)))"

text \<open>
  \<open>toISOString\<close> of an invalid date throws a RangeError, before any picker is created.
  Each picker starts at the date flatpickr reads from the first ten characters.
\<close>

definition setupFilters :: "runtime \<Rightarrow> order_rec list \<Rightarrow> page \<Rightarrow> js_error \<times> page + page" where
  "setupFilters rt data p =
     (let dates = map (itemDate rt) data
      in case min_date dates of
           None \<Rightarrow> Inl (RangeError, p)
         | Some minDate \<Rightarrow>
             (let p1 = p\<lparr>start_date := Some (flatpickr_parse rt (take 10 (toISOString minDate))),
                         change_handlers := change_handlers p @ [''start-date'']\<rparr>
              in case max_date dates of
                   None \<Rightarrow> Inl (RangeError, p1)
                 | Some maxDate \<Rightarrow>
                     Inr (p1\<lparr>end_date := Some (flatpickr_parse rt (take 10 (toISOString maxDate))),
                              change_handlers := change_handlers p1 @ [''end-date'', ''category-filter'']\<rparr>)))"

definition initializeDashboard :: "runtime \<Rightarrow> order_rec list \<Rightarrow> page \<Rightarrow> js_error \<times> page + page" where
  "initializeDashboard rt data p = filterAndRenderData rt data (populateCategoryFilter data p)"

text \<open>
  What \<open>fetch('/data')\<close> and \<open>response.json()\<close> end with: a rejection (the request failed
  or the body is not JSON), or the parsed body, a list of records or nothing (\<open>null\<close>).
\<close>

datatype fetch_result = Rejected string | Resolved "order_rec list option"

text \<open>The handler of \<open>catch\<close>: it also receives what the handler of \<open>then\<close> throws.\<close>

definition on_catch :: "js_error \<Rightarrow> page \<Rightarrow> page" where
  "on_catch e p =
     (let p1 = p\<lparr>console_error := console_error p @ [e]\<rparr>
      in case app_html p1 of
           None \<Rightarrow> p1
         | Some _ \<Rightarrow> p1\<lparr>app_html := Some ''<p>Failed to fetch data.</p>''\<rparr>)"

definition on_data :: "runtime \<Rightarrow> order_rec list option \<Rightarrow> page \<Rightarrow> js_error \<times> page + page" where
  "on_data rt body p =
     (case (case body of None \<Rightarrow> [] | Some data \<Rightarrow> data) of
        [] \<Rightarrow>
          (case app_html p of
             None \<Rightarrow> Inr p
           | Some _ \<Rightarrow> Inr (p\<lparr>app_html := Some ''<p>No data available.</p>''\<rparr>))
      | item # items \<Rightarrow>
          (case setupFilters rt (item # items) p of
             Inl e \<Rightarrow> Inl e
           | Inr p1 \<Rightarrow>
               (case initializeDashboard rt (item # items) p1 of
                  Inl e \<Rightarrow> Inl e
                | Inr p2 \<Rightarrow>
                    Inr (p2\<lparr>change_handlers := change_handlers p2 @ [''chart-type-selector'']\<rparr>))))"

definition DOMContentLoaded :: "runtime \<Rightarrow> fetch_result \<Rightarrow> page \<Rightarrow> page" where
  "DOMContentLoaded rt r p =
     (case r of
        Rejected reason \<Rightarrow> on_catch (FetchError reason) p
      | Resolved body \<Rightarrow>
          (case on_data rt body p of
             Inl (e, p') \<Rightarrow> on_catch e p'
           | Inr p' \<Rightarrow> p'))"

text \<open>The page before the script has run.\<close>

definition initial_page :: page where
  "initial_page =
     \<lparr>app_html = Some [], console_error = [], chart_type_selector = ''revenueOverTime'',
      start_date = None, end_date = None, category_options = [], category_value = [],
      change_handlers = [], total_revenue = [], total_orders = [], average_order_value = [],
      top_category = [], charts = [], chartInstance = None, data_table = None\<rparr>"

section \<open>Notions used to state the properties\<close>

text \<open>Numbers add up with \<open>js_add\<close>, from zero: sums of lists of numbers are defined.\<close>

instantiation jsnum :: comm_monoid_add
begin

definition zero_jsnum :: jsnum where
  "zero_jsnum = Num 0"

definition plus_jsnum :: "jsnum \<Rightarrow> jsnum \<Rightarrow> jsnum" where
  "plus_jsnum = js_add"

instance
proof
  fix a b c :: jsnum
  show "a + b + c = a + (b + c)"
    unfolding plus_jsnum_def by (cases a; cases b; cases c) simp_all
  show "a + b = b + a"
    unfolding plus_jsnum_def by (cases a; cases b) simp_all
  show "0 + a = a"
    unfolding plus_jsnum_def zero_jsnum_def by (cases a) simp_all
qed

end

text \<open>
  A date lies in the closed range between two bounds: it is a valid date, both bounds
  are dates, and its time value is between theirs.
\<close>

definition within_range :: "int option \<Rightarrow> int option \<Rightarrow> int option \<Rightarrow> bool" where
  "within_range d s e =
     (case d of
        None \<Rightarrow> False
      | Some t \<Rightarrow>
          (case s of
             None \<Rightarrow> False
           | Some a \<Rightarrow> (case e of None \<Rightarrow> False | Some b \<Rightarrow> a \<le> t \<and> t \<le> b)))"










text \<open>The distinct values of a list in the order of their first occurrence.\<close>

fun first_seen :: "'a list \<Rightarrow> 'a list" where
  "first_seen [] = []"
| "first_seen (x # xs) = x # removeAll x (first_seen xs)"

text \<open>The charts of a page that have not been destroyed.\<close>

definition live_charts :: "page \<Rightarrow> chart list" where
  "live_charts p = filter (\<lambda>c. \<not> destroyed c) (charts p)"

text \<open>A sequence of calls of \<open>drawChart\<close>, each with its data, canvas and mode.\<close>

fun draw_calls :: "(order_rec list \<times> string \<times> string) list \<Rightarrow> page \<Rightarrow> page" where
  "draw_calls [] p = p"
| "draw_calls ((data, elementId, chartType) # calls) p =
     draw_calls calls (drawChart data elementId chartType p)"

text \<open>
  Every chart that has not been destroyed is the one \<open>chartInstance\<close> refers to, and
  \<open>chartInstance\<close> refers to a chart that exists.
\<close>

definition chart_inv :: "page \<Rightarrow> bool" where
  "chart_inv p =
     ((\<forall>i < length (charts p). \<not> destroyed (charts p ! i) \<longrightarrow> chartInstance p = Some i)
      \<and> (\<forall>i. chartInstance p = Some i \<longrightarrow> i < length (charts p)))"

definition chart_modes :: "string list" where
  "chart_modes = [''revenueOverTime'', ''revenueByCategory'', ''topProducts'']"

text \<open>Sample records: a date, a product, a category and a total.\<close>

definition sample_order :: "string \<Rightarrow> jsval \<Rightarrow> jsval \<Rightarrow> string \<Rightarrow> order_rec" where
  "sample_order d product category t =
     \<lparr>order_id = ''1'', order_date = d, customer_id = ''c1'', product_names = product,
      categories = category, total_field = t\<rparr>"



definition absent_category_orders :: "order_rec list" where
  "absent_category_orders = [sample_order ''01/01/2024'' (Str ''Widget'') Undefined ''50'']"

definition scenario_orders :: "order_rec list" where
  "scenario_orders =
     [sample_order ''01/01/2024'' (Str ''Widget'') (Str ''A'') ''50'',
      sample_order ''15/01/2024'' (Str ''Gadget'') (Str ''B'') ''150'']"

section \<open>Properties\<close>

subsection \<open>Digits and two-decimal formatting\<close>

lemma digit_cases: "d < 10 \<Longrightarrow> d \<in> {0, 1, 2, 3, 4, 5, 6, 7, 8, 9::nat}"
  by auto

lemma digit_val_digit_char: "d < 10 \<Longrightarrow> digit_val (digit_char d) = d"
  by (drule digit_cases) (auto simp: digit_val_def digit_char_def)

lemma is_digit_digit_char: "d < 10 \<Longrightarrow> is_digit (digit_char d)"
  by (drule digit_cases) (auto simp: is_digit_def digit_char_def)

lemma digits_val_snoc: "digits_val (s @ [c]) = 10 * digits_val s + digit_val c"
  by (simp add: digits_val_def)

lemma digits_val_nat_digits: "digits_val (nat_digits n) = n"
proof (induction n rule: nat_digits.induct)
  case (1 n)
  show ?case
  proof (cases "n < 10")
    case True
    then show ?thesis
      by (subst nat_digits.simps) (simp add: digits_val_def digit_val_digit_char)
  next
    case False
    with 1 have "digits_val (nat_digits (n div 10)) = n div 10" by simp
    with False show ?thesis
      by (subst nat_digits.simps) (simp add: digits_val_snoc digit_val_digit_char)
  qed
qed

lemma all_digits_nat_digits: "list_all is_digit (nat_digits n)"
proof (induction n rule: nat_digits.induct)
  case (1 n)
  show ?case
  proof (cases "n < 10")
    case True
    then show ?thesis
      by (subst nat_digits.simps) (simp add: is_digit_digit_char)
  next
    case False
    with 1 have "list_all is_digit (nat_digits (n div 10))" by simp
    with False show ?thesis
      by (subst nat_digits.simps) (simp add: is_digit_digit_char)
  qed
qed

lemma digits_val_zeros: "digits_val (replicate k CHR ''0'' @ s) = digits_val s"
proof -
  have "foldl (\<lambda>n c. 10 * n + digit_val c) 0 (replicate k CHR ''0'') = 0"
    by (induction k) (simp_all add: digit_val_def)
  then show ?thesis by (simp add: digits_val_def)
qed

text \<open>
  Two-decimal output: digits, a point and exactly two digits, which together are the
  numeral of the integer printed.
\<close>

lemma fixed_digits_two:
  "\<exists>ip fp. fixed_digits 2 n = ip @ ''.'' @ fp \<and> ip \<noteq> [] \<and> length fp = 2
      \<and> list_all is_digit ip \<and> list_all is_digit fp \<and> digits_val (ip @ fp) = n"
proof -
  define m where "m = nat_digits n"
  define m' where "m' = (if length m \<le> 2 then replicate (3 - length m) CHR ''0'' @ m else m)"
  have len: "3 \<le> length m'" by (auto simp: m'_def)
  have dig: "list_all is_digit m'"
    using all_digits_nat_digits[of n] by (auto simp: m'_def m_def is_digit_def list_all_iff)
  have val: "digits_val m' = n"
    by (simp add: m'_def m_def digits_val_zeros digits_val_nat_digits)
  have eq: "fixed_digits 2 n = take (length m' - 2) m' @ ''.'' @ drop (length m' - 2) m'"
    by (simp add: fixed_digits_def m'_def m_def Let_def)
  show ?thesis
  proof (intro exI conjI)
    show "fixed_digits 2 n = take (length m' - 2) m' @ ''.'' @ drop (length m' - 2) m'" by (rule eq)
    show "take (length m' - 2) m' \<noteq> []" using len by auto
    show "length (drop (length m' - 2) m') = 2" using len by simp
    show "list_all is_digit (take (length m' - 2) m')"
      using dig by (auto simp: list_all_iff dest: in_set_takeD)
    show "list_all is_digit (drop (length m' - 2) m')"
      using dig by (auto simp: list_all_iff dest: in_set_dropD)
    show "digits_val (take (length m' - 2) m' @ drop (length m' - 2) m') = n"
      using val by simp
  qed
qed

text \<open>The integer \<open>toFixed(2)\<close> prints is within half a hundredth of the value.\<close>

lemma toFixed_nearest:
  "0 \<le> (a::rat) \<Longrightarrow> \<bar>of_nat (nat \<lfloor>a * 100 + 1 / 2\<rfloor>) / 100 - a\<bar> \<le> 1 / 200"
proof -
  assume a: "0 \<le> a"
  define n where "n = \<lfloor>a * 100 + 1 / 2\<rfloor>"
  have n0: "0 \<le> n" using a by (simp add: n_def)
  have "of_int n \<le> a * 100 + 1 / 2 \<and> a * 100 + 1 / 2 < of_int (n + 1)"
    unfolding n_def by (rule floor_correct)
  then have l: "of_int n \<le> a * 100 + 1 / 2" and u: "a * 100 + 1 / 2 < of_int n + 1"
    by simp_all
  have eq: "rat_of_nat (nat n) = rat_of_int n" using n0 by simp
  have "rat_of_int n / 100 - a \<le> 1 / 200" using l by linarith
  moreover have "a - rat_of_int n / 100 \<le> 1 / 200" using u by linarith
  ultimately have "\<bar>rat_of_int n / 100 - a\<bar> \<le> 1 / 200" by (subst abs_le_iff) linarith
  then show ?thesis unfolding n_def[symmetric] eq .
qed


subsection \<open>Filtering\<close>

lemma within_range_iff: "within_range d s e \<longleftrightarrow> date_ge d s \<and> date_le d e"
  by (auto simp: within_range_def date_ge_def date_le_def split: option.splits)

lemma drawChart_keeps_metrics:
  "total_orders (drawChart data elementId chartType p) = total_orders p"
  "data_table (drawChart data elementId chartType p) = data_table p"
  by (simp_all add: drawChart_def Let_def new_Chart_def destroy_previous_def
      split: option.splits list.splits)

text \<open>
  Claim C1. For every collection and every filter state, the filtered subset is the
  collection restricted to the records whose parsed order date lies between the start
  and the end date, both included, and whose category field is the selected category
  unless the selection is \<open>all\<close>; the records keep their order. With both pickers
  attached, \<open>filterAndRenderData\<close> shows this subset in the table and counts it in
  the metrics.
\<close>

theorem filterAndRenderData_filtered_subset:
  "filteredData rt data startDate endDate selectedCategory =
     filter (\<lambda>item. within_range (itemDate rt item) startDate endDate
                    \<and> (selectedCategory = ''all'' \<or> categories item = Str selectedCategory)) data
   \<and> subseq (filteredData rt data startDate endDate selectedCategory) data
   \<and> (\<forall>item. item \<in> set (filteredData rt data startDate endDate selectedCategory) \<longleftrightarrow>
         item \<in> set data \<and> within_range (itemDate rt item) startDate endDate
         \<and> (selectedCategory = ''all'' \<or> categories item = Str selectedCategory))
   \<and> (start_date p = Some startDate \<and> end_date p = Some endDate \<longrightarrow>
        (\<exists>p'. filterAndRenderData rt data p = Inr p'
           \<and> data_table p' = Some (map (table_row rt)
                 (filteredData rt data startDate endDate (category_value p)))
           \<and> total_orders p' = nat_digits (length
                 (filteredData rt data startDate endDate (category_value p)))))"
proof -
  have "\<exists>p'. filterAndRenderData rt data p = Inr p'
           \<and> data_table p' = Some (map (table_row rt)
                 (filteredData rt data startDate endDate (category_value p)))
           \<and> total_orders p' = nat_digits (length
                 (filteredData rt data startDate endDate (category_value p)))"
    if "start_date p = Some startDate" and "end_date p = Some endDate"
    using that
    by (simp add: filterAndRenderData_def Let_def populateDataTable_def drawChart_keeps_metrics
        updateKeyMetrics_def)
  then show ?thesis
    by (auto simp: filteredData_def within_range_iff)
qed

lemma sample_dates:
  "itemDate utc_runtime (sample_order ''01/01/2024'' p c t) = Some 1704067200000"
  "itemDate utc_runtime (sample_order ''15/01/2024'' p c t) = Some 1705276800000"
  by (simp_all add: itemDate_def utc_runtime_def sample_order_def reversed_date_def
      parse_iso_date_def is_digit_def digits_val_def digit_val_def days_in_month_def
      days_from_civil_def)

theorem filterAndRenderData_filtered_subset_witness:
  "filteredData utc_runtime scenario_orders (Some 1704067200000) (Some 1705276800000) ''B''
     = [sample_order ''15/01/2024'' (Str ''Gadget'') (Str ''B'') ''150'']
   \<and> filteredData utc_runtime scenario_orders (Some 1704067200000) (Some 1705276800000) ''all''
     = scenario_orders
   \<and> filteredData utc_runtime scenario_orders (Some 1704067200001) (Some 1705276800000) ''all''
     = [sample_order ''15/01/2024'' (Str ''Gadget'') (Str ''B'') ''150'']"
proof -
  note t = filterAndRenderData_filtered_subset [where rt = utc_runtime and data = scenario_orders
      and endDate = "Some 1705276800000" and p = initial_page]
  from t [where startDate = "Some 1704067200000" and selectedCategory = "''B''", THEN conjunct1]
    t [where startDate = "Some 1704067200000" and selectedCategory = "''all''", THEN conjunct1]
    t [where startDate = "Some 1704067200001" and selectedCategory = "''all''", THEN conjunct1]
  show ?thesis
    by (simp add: scenario_orders_def sample_dates within_range_def) (simp add: sample_order_def)
qed

text \<open>
  Claim C10. A record whose reversed order date does not parse to a valid date fails
  both date comparisons, and is in the filtered subset for no start date, end date or
  category.
\<close>

theorem invalid_date_excluded:
  assumes "itemDate rt item = None"
  shows "\<not> date_ge (itemDate rt item) startDate \<and> \<not> date_le (itemDate rt item) endDate
         \<and> item \<notin> set (filteredData rt data startDate endDate selectedCategory)"
  using assms by (simp add: filteredData_def date_ge_def date_le_def)

lemma invalid_sample_date:
  "itemDate utc_runtime (sample_order ''31/02/2024'' p c t) = None"
  by (simp add: itemDate_def utc_runtime_def sample_order_def reversed_date_def
      parse_iso_date_def is_digit_def digits_val_def digit_val_def days_in_month_def)

theorem invalid_date_excluded_witness:
  "itemDate utc_runtime (sample_order ''31/02/2024'' (Str ''Widget'') (Str ''A'') ''50'') = None
   \<and> sample_order ''31/02/2024'' (Str ''Widget'') (Str ''A'') ''50''
       \<notin> set (filteredData utc_runtime
                 (sample_order ''31/02/2024'' (Str ''Widget'') (Str ''A'') ''50'' # scenario_orders)
                 (Some 0) (Some 1705276800000) ''all'')"
  using invalid_date_excluded [OF invalid_sample_date, of "Str ''Widget''" "Str ''A''" "''50''" "Some 0" "Some 1705276800000"
      "sample_order ''31/02/2024'' (Str ''Widget'') (Str ''A'') ''50'' # scenario_orders" "''all''"]
    invalid_sample_date [of "Str ''Widget''" "Str ''A''" "''50''"]
  by simp

subsection \<open>Key metrics\<close>

lemma totalRevenue_sum: "totalRevenue data = (\<Sum>item\<leftarrow>data. parseFloat (total_field item))"
proof -
  have "foldl (\<lambda>acc item. js_add acc (parseFloat (total_field item))) a data
        = a + (\<Sum>item\<leftarrow>data. parseFloat (total_field item))" for a
    by (induction data arbitrary: a) (simp_all add: plus_jsnum_def[symmetric] add.assoc)
  from this[of "Num 0"] show ?thesis
    by (simp add: totalRevenue_def zero_jsnum_def[symmetric])
qed

lemma NaN_plus [simp]: "NaN + x = NaN" "x + NaN = NaN"
  by (cases x; simp add: plus_jsnum_def)+

lemma Num_plus [simp]: "Num a + Num b = Num (a + b)"
  by (simp add: plus_jsnum_def)

lemma sum_list_NaN: "NaN \<in> set xs \<Longrightarrow> sum_list xs = NaN"
  by (induction xs) auto



lemma toFixed_two_decimals:
  assumes "\<bar>q\<bar> < 10 ^ 21"
  shows "\<exists>ip fp. toFixed rt 2 (Num q) = (if q < 0 then ''-'' else []) @ ip @ ''.'' @ fp
           \<and> ip \<noteq> [] \<and> length fp = 2 \<and> list_all is_digit ip \<and> list_all is_digit fp
           \<and> \<bar>of_nat (digits_val (ip @ fp)) / 100 - \<bar>q\<bar>\<bar> \<le> 1 / 200"
proof -
  define n where "n = nat \<lfloor>\<bar>q\<bar> * 100 + 1 / 2\<rfloor>"
  obtain ip fp where f: "fixed_digits 2 n = ip @ ''.'' @ fp" "ip \<noteq> []" "length fp = 2"
    "list_all is_digit ip" "list_all is_digit fp" "digits_val (ip @ fp) = n"
    using fixed_digits_two[of n] by blast
  have "toFixed rt 2 (Num q) = (if q < 0 then ''-'' else []) @ fixed_digits 2 n"
    using assms by (simp add: toFixed_def n_def Let_def)
  moreover have "\<bar>of_nat n / 100 - \<bar>q\<bar>\<bar> \<le> 1 / 200"
    unfolding n_def by (rule toFixed_nearest) simp
  ultimately show ?thesis using f by auto
qed


lemma floor_rat_numeral_div [simp]: "\<lfloor>numeral a / numeral b :: rat\<rfloor> = numeral a div numeral b"
  using floor_divide_of_int_eq [of "numeral a" "numeral b", where ?'a = rat] by simp







text \<open>
  Claim C9. With a total that parses to NaN in the collection, the revenue sum and the
  average are NaN and are displayed as such; \<open>updateKeyMetrics\<close> has no error result,
  and it leaves the message element and the console as they were.
\<close>

theorem unparsable_total_propagates:
  assumes "\<exists>item\<in>set data. parseFloat (total_field item) = NaN"
  shows "totalRevenue data = NaN \<and> averageOrderValue data = NaN
         \<and> total_revenue (updateKeyMetrics rt data p) = ''$NaN''
         \<and> average_order_value (updateKeyMetrics rt data p) = ''$NaN''
         \<and> app_html (updateKeyMetrics rt data p) = app_html p
         \<and> console_error (updateKeyMetrics rt data p) = console_error p"
proof -
  from assms have "NaN \<in> set (map (\<lambda>item. parseFloat (total_field item)) data)"
    by (auto simp: image_iff) (metis)
  then have r: "totalRevenue data = NaN"
    unfolding totalRevenue_sum by (rule sum_list_NaN)
  from assms have "data \<noteq> []" by auto
  with r have a: "averageOrderValue data = NaN"
    by (simp add: averageOrderValue_def)
  from r a show ?thesis
    by (simp add: updateKeyMetrics_def toFixed_def)
qed

lemma bad_total: "parseFloat (total_field (sample_order d p c ''n/a'')) = NaN"
  by (simp add: sample_order_def parseFloat_def read_sign_def is_space_def is_digit_def)

theorem unparsable_total_propagates_witness:
  "(\<exists>item\<in>set (sample_order ''02/01/2024'' (Str ''Widget'') (Str ''A'') ''n/a'' # scenario_orders).
       parseFloat (total_field item) = NaN)
   \<and> total_revenue (updateKeyMetrics utc_runtime
        (sample_order ''02/01/2024'' (Str ''Widget'') (Str ''A'') ''n/a'' # scenario_orders) initial_page) = ''$NaN''
   \<and> average_order_value (updateKeyMetrics utc_runtime
        (sample_order ''02/01/2024'' (Str ''Widget'') (Str ''A'') ''n/a'' # scenario_orders) initial_page) = ''$NaN''"
proof -
  have h: "\<exists>item\<in>set (sample_order ''02/01/2024'' (Str ''Widget'') (Str ''A'') ''n/a'' # scenario_orders).
       parseFloat (total_field item) = NaN"
    by (simp add: bad_total)
  from unparsable_total_propagates [OF h, of utc_runtime initial_page] h show ?thesis
    by blast
qed

subsection \<open>The category control\<close>

lemma foldl_Set_add:
  "foldl Set_add acc xs = acc @ filter (\<lambda>y. y \<notin> set acc) (first_seen xs)"
proof (induction xs arbitrary: acc)
  case Nil
  then show ?case by simp
next
  case (Cons x xs)
  show ?case
  proof (cases "x \<in> set acc")
    case True
    then have "filter (\<lambda>y. y \<notin> set acc) (removeAll x (first_seen xs))
               = filter (\<lambda>y. y \<notin> set acc) (first_seen xs)"
      by (auto simp: removeAll_filter_not_eq intro: filter_cong)
    with True Cons show ?thesis by (simp add: Set_add_def)
  next
    case False
    have "filter (\<lambda>y. y \<notin> set (acc @ [x])) (first_seen xs)
          = filter (\<lambda>y. y \<notin> set acc) (removeAll x (first_seen xs))"
      by (auto simp: removeAll_filter_not_eq intro: filter_cong)
    with False Cons show ?thesis by (simp add: Set_add_def)
  qed
qed

lemma new_Set_first_seen: "new_Set xs = first_seen xs"
  by (simp add: new_Set_def foldl_Set_add)

lemma set_first_seen: "set (first_seen xs) = set xs"
  by (induction xs) auto

lemma distinct_first_seen: "distinct (first_seen xs)"
  by (induction xs) (auto simp: distinct_removeAll)

lemma remdups_snoc: "remdups (ys @ [x]) = removeAll x (remdups ys) @ [x]"
  by (induction ys) auto

lemma first_seen_remdups: "first_seen xs = rev (remdups (rev xs))"
  by (induction xs) (simp_all add: remdups_snoc removeAll_filter_not_eq rev_filter)

lemma foldl_append_option:
  "foldl (\<lambda>q c. q\<lparr>category_options := category_options q @ [f c]\<rparr>) q0 cs
     = q0\<lparr>category_options := category_options q0 @ map f cs\<rparr>"
  by (induction cs arbitrary: q0) simp_all

lemma populateCategoryFilter_eq:
  "populateCategoryFilter data p =
     p\<lparr>category_options :=
         new_Option (Str ''All Categories'') (Str ''all'') True True
           # map (\<lambda>c. new_Option c c False False) (first_seen (map categories data)),
       category_value := ''all''\<rparr>"
  by (simp add: populateCategoryFilter_def Let_def foldl_append_option new_Set_first_seen)

text \<open>
  Claim C5. The options \<open>populateCategoryFilter\<close> builds are \<open>All Categories\<close> with
  value \<open>all\<close>, created selected, and then one option, not selected, for each value
  of the category field in the order in which the values first occur, each value once.
  The options do not depend on what the control held before, and populating twice gives
  the same page as populating once.
\<close>

theorem populateCategoryFilter_options:
  "category_options (populateCategoryFilter data p) =
     new_Option (Str ''All Categories'') (Str ''all'') True True
       # map (\<lambda>c. new_Option c c False False) (first_seen (map categories data))
   \<and> new_Option (Str ''All Categories'') (Str ''all'') True True
       = \<lparr>option_text = ''All Categories'', option_value = ''all'', defaultSelected = True,
          selected = True\<rparr>
   \<and> (\<forall>opt \<in> set (tl (category_options (populateCategoryFilter data p))). \<not> selected opt)
   \<and> category_value (populateCategoryFilter data p) = ''all''
   \<and> distinct (first_seen (map categories data))
   \<and> set (first_seen (map categories data)) = categories ` set data
   \<and> first_seen (map categories data) = rev (remdups (rev (map categories data)))
   \<and> length (category_options (populateCategoryFilter data p)) = 1 + card (categories ` set data)
   \<and> populateCategoryFilter data (populateCategoryFilter data p) = populateCategoryFilter data p
   \<and> category_options (populateCategoryFilter data p) = category_options (populateCategoryFilter data q)"
proof -
  have "length (first_seen (map categories data)) = card (categories ` set data)"
    using distinct_card[OF distinct_first_seen, of "map categories data"]
    by (simp add: set_first_seen)
  then show ?thesis
    by (auto simp: populateCategoryFilter_eq distinct_first_seen set_first_seen
        first_seen_remdups[symmetric] new_Option_def Let_def)
qed

theorem populateCategoryFilter_options_witness:
  "category_options (populateCategoryFilter
      [sample_order ''01/01/2024'' (Str ''Widget'') (Str ''B'') ''50'',
       sample_order ''02/01/2024'' (Str ''Widget'') (Str ''A'') ''50'',
       sample_order ''03/01/2024'' (Str ''Widget'') (Str ''B'') ''50''] initial_page)
   = [\<lparr>option_text = ''All Categories'', option_value = ''all'', defaultSelected = True, selected = True\<rparr>,
      \<lparr>option_text = ''B'', option_value = ''B'', defaultSelected = False, selected = False\<rparr>,
      \<lparr>option_text = ''A'', option_value = ''A'', defaultSelected = False, selected = False\<rparr>]
   \<and> map selected (tl (category_options (populateCategoryFilter
      [sample_order ''01/01/2024'' (Str ''Widget'') (Str ''B'') ''50'',
       sample_order ''02/01/2024'' (Str ''Widget'') (Str ''A'') ''50'',
       sample_order ''03/01/2024'' (Str ''Widget'') (Str ''B'') ''50''] initial_page))) = [False, False]"
  using populateCategoryFilter_options [of
      "[sample_order ''01/01/2024'' (Str ''Widget'') (Str ''B'') ''50'',
       sample_order ''02/01/2024'' (Str ''Widget'') (Str ''A'') ''50'',
       sample_order ''03/01/2024'' (Str ''Widget'') (Str ''B'') ''50'']" initial_page initial_page]
  by (simp add: sample_order_def new_Option_def)

subsection \<open>Charts\<close>

lemma live_destroy_previous:
  assumes "chart_inv p"
  shows "live_charts (destroy_previous p) = [] \<and> chart_inv (destroy_previous p)
         \<and> chartInstance (destroy_previous p) = chartInstance p
         \<and> length (charts (destroy_previous p)) = length (charts p)"
proof (cases "chartInstance p")
  case None
  with assms have "\<forall>i < length (charts p). destroyed (charts p ! i)"
    by (auto simp: chart_inv_def)
  then have "\<forall>c \<in> set (charts p). destroyed c"
    by (auto simp: in_set_conv_nth)
  with None assms show ?thesis
    by (auto simp: destroy_previous_def live_charts_def filter_empty_conv)
next
  case (Some i)
  with assms have i: "i < length (charts p)" by (simp add: chart_inv_def)
  then obtain c cs where d: "drop i (charts p) = c # cs"
    by (cases "drop i (charts p)") auto
  have dp: "destroy_previous p = p\<lparr>charts := (charts p)[i := c\<lparr>destroyed := True\<rparr>]\<rparr>"
    using Some d by (simp add: destroy_previous_def)
  have others: "\<forall>j < length (charts p). j \<noteq> i \<longrightarrow> destroyed (charts p ! j)"
    using assms Some by (auto simp: chart_inv_def)
  have allj: "\<forall>j < length (charts p). destroyed ((charts p)[i := c\<lparr>destroyed := True\<rparr>] ! j)"
    using others i by (simp add: nth_list_update)
  from allj have all: "\<forall>x \<in> set ((charts p)[i := c\<lparr>destroyed := True\<rparr>]). destroyed x"
    by (auto simp: in_set_conv_nth)
  have "live_charts (destroy_previous p) = []"
    using all by (simp add: dp live_charts_def filter_empty_conv)
  moreover have "chart_inv (destroy_previous p)"
    using allj Some i by (simp add: dp chart_inv_def)
  ultimately show ?thesis
    using Some by (simp add: dp)
qed

lemma live_new_Chart:
  assumes "live_charts p = []" and "chart_inv p" and "\<not> destroyed c"
  shows "live_charts (new_Chart c p) = [c] \<and> chart_inv (new_Chart c p)"
proof -
  from assms(1) have "\<forall>x \<in> set (charts p). destroyed x"
    by (auto simp: live_charts_def filter_empty_conv)
  then have "\<forall>i < length (charts p). destroyed (charts p ! i)" by auto
  with assms show ?thesis
    by (auto simp: new_Chart_def live_charts_def chart_inv_def nth_append)
qed

lemma drawChart_modes:
  "drawChart data elementId ''revenueOverTime'' p
     = new_Chart (revenueOverTime_chart data elementId) (destroy_previous p)"
  "drawChart data elementId ''revenueByCategory'' p
     = new_Chart (revenueByCategory_chart data elementId) (destroy_previous p)"
  "drawChart data elementId ''topProducts'' p
     = new_Chart (topProducts_chart data elementId) (destroy_previous p)"
  by (simp_all add: drawChart_def Let_def)

lemma drawChart_other:
  "chartType \<notin> set chart_modes \<Longrightarrow> drawChart data elementId chartType p = destroy_previous p"
  by (simp add: chart_modes_def drawChart_def Let_def)

lemma drawChart_cases:
  assumes "chartType \<in> set chart_modes"
  shows "\<exists>c. \<not> destroyed c \<and> canvas c = elementId
           \<and> drawChart data elementId chartType p = new_Chart c (destroy_previous p)"
proof -
  from assms have "chartType = ''revenueOverTime'' \<or> chartType = ''revenueByCategory''
      \<or> chartType = ''topProducts''"
    by (simp add: chart_modes_def)
  then show ?thesis
  proof (elim disjE)
    assume t: "chartType = ''revenueOverTime''"
    have "\<not> destroyed (revenueOverTime_chart data elementId)"
      and "canvas (revenueOverTime_chart data elementId) = elementId"
      by (simp_all add: revenueOverTime_chart_def)
    then show ?thesis unfolding t using drawChart_modes(1) by blast
  next
    assume t: "chartType = ''revenueByCategory''"
    have "\<not> destroyed (revenueByCategory_chart data elementId)"
      and "canvas (revenueByCategory_chart data elementId) = elementId"
      by (simp_all add: revenueByCategory_chart_def)
    then show ?thesis unfolding t using drawChart_modes(2) by blast
  next
    assume t: "chartType = ''topProducts''"
    have "\<not> destroyed (topProducts_chart data elementId)"
      and "canvas (topProducts_chart data elementId) = elementId"
      by (simp_all add: topProducts_chart_def)
    then show ?thesis unfolding t using drawChart_modes(3) by blast
  qed
qed

lemma drawChart_inv:
  assumes "chart_inv p"
  shows "chart_inv (drawChart data elementId chartType p)
         \<and> (chartType \<in> set chart_modes \<longrightarrow>
              length (live_charts (drawChart data elementId chartType p)) = 1)
         \<and> (chartType \<notin> set chart_modes \<longrightarrow>
              live_charts (drawChart data elementId chartType p) = [])"
proof (cases "chartType \<in> set chart_modes")
  case True
  then obtain c where c: "\<not> destroyed c"
      "drawChart data elementId chartType p = new_Chart c (destroy_previous p)"
    using drawChart_cases by blast
  from live_destroy_previous[OF assms] live_new_Chart[of "destroy_previous p" c] c True
  show ?thesis by simp
next
  case False
  with live_destroy_previous[OF assms] drawChart_other[OF False] show ?thesis by simp
qed

lemma draw_calls_inv: "chart_inv p \<Longrightarrow> chart_inv (draw_calls calls p)"
  by (induction calls p rule: draw_calls.induct) (simp_all add: drawChart_inv)

lemma chart_inv_live: "chart_inv p \<Longrightarrow> length (live_charts p) \<le> 1"
proof -
  assume inv: "chart_inv p"
  show ?thesis
  proof (cases "chartInstance p")
    case None
    with inv have "\<forall>i < length (charts p). destroyed (charts p ! i)"
      by (auto simp: chart_inv_def)
    then have "\<forall>c \<in> set (charts p). destroyed c"
      by (auto simp: in_set_conv_nth)
    then show ?thesis by (simp add: live_charts_def filter_empty_conv)
  next
    case (Some i)
    with inv have i: "i < length (charts p)" by (simp add: chart_inv_def)
    have others: "\<forall>j < length (charts p). j \<noteq> i \<longrightarrow> destroyed (charts p ! j)"
      using inv Some by (auto simp: chart_inv_def)
    have split: "charts p = take i (charts p) @ charts p ! i # drop (Suc i) (charts p)"
      using i by (rule id_take_nth_drop)
    have "\<forall>c \<in> set (take i (charts p)). destroyed c"
      using others i by (auto simp: in_set_conv_nth)
    moreover have "\<forall>c \<in> set (drop (Suc i) (charts p)). destroyed c"
      using others i by (auto simp: in_set_conv_nth)
    ultimately have "filter (\<lambda>c. \<not> destroyed c) (charts p)
                     = filter (\<lambda>c. \<not> destroyed c) [charts p ! i]"
      by (subst split) (simp add: filter_empty_conv)
    then show ?thesis by (simp add: live_charts_def)
  qed
qed


text \<open>
  Claim C7. From a page without charts, after any sequence of \<open>drawChart\<close> calls at
  most one chart is live; the destroy step of the next call leaves none, so a new chart
  is constructed only when no chart is live; a call with one of the three modes ends
  with exactly one live chart, the one just built, and a call with another mode ends
  with none.
\<close>

theorem drawChart_single_live_chart:
  assumes "charts p0 = []" and "chartInstance p0 = None"
  shows "length (live_charts (draw_calls calls p0)) \<le> 1
         \<and> live_charts (destroy_previous (draw_calls calls p0)) = []
         \<and> (chartType \<in> set chart_modes \<longrightarrow>
              (\<exists>c. drawChart data elementId chartType (draw_calls calls p0)
                     = new_Chart c (destroy_previous (draw_calls calls p0))
                   \<and> live_charts (drawChart data elementId chartType (draw_calls calls p0)) = [c]))
         \<and> (chartType \<notin> set chart_modes \<longrightarrow>
              live_charts (drawChart data elementId chartType (draw_calls calls p0)) = [])"
proof -
  from assms have "chart_inv p0" by (simp add: chart_inv_def)
  then have inv: "chart_inv (draw_calls calls p0)" by (rule draw_calls_inv)
  have a: "length (live_charts (draw_calls calls p0)) \<le> 1"
    using inv by (rule chart_inv_live)
  have b: "live_charts (destroy_previous (draw_calls calls p0)) = []"
    and b': "chart_inv (destroy_previous (draw_calls calls p0))"
    using live_destroy_previous[OF inv] by simp_all
  have c: "\<exists>c. drawChart data elementId chartType (draw_calls calls p0)
                     = new_Chart c (destroy_previous (draw_calls calls p0))
                   \<and> live_charts (drawChart data elementId chartType (draw_calls calls p0)) = [c]"
    if "chartType \<in> set chart_modes"
  proof -
    from drawChart_cases[OF that] obtain c where c: "\<not> destroyed c"
      "drawChart data elementId chartType (draw_calls calls p0)
         = new_Chart c (destroy_previous (draw_calls calls p0))"
      by blast
    with live_new_Chart[OF b b' c(1)] show ?thesis by auto
  qed
  have d: "live_charts (drawChart data elementId chartType (draw_calls calls p0)) = []"
    if "chartType \<notin> set chart_modes"
    using drawChart_other[OF that] b by simp
  from a b c d show ?thesis by blast
qed

theorem drawChart_single_live_chart_witness:
  "charts initial_page = [] \<and> chartInstance initial_page = None
   \<and> ''topProducts'' \<in> set chart_modes \<and> ''pie'' \<notin> set chart_modes
   \<and> length (live_charts (draw_calls
         [(scenario_orders, ''chart-canvas'', ''revenueOverTime''),
          (scenario_orders, ''chart-canvas'', ''pie''),
          (scenario_orders, ''chart-canvas'', ''revenueByCategory'')] initial_page)) \<le> 1
   \<and> length (live_charts (drawChart scenario_orders ''chart-canvas'' ''topProducts''
         (draw_calls
           [(scenario_orders, ''chart-canvas'', ''revenueOverTime''),
            (scenario_orders, ''chart-canvas'', ''pie''),
            (scenario_orders, ''chart-canvas'', ''revenueByCategory'')] initial_page))) = 1
   \<and> live_charts (drawChart scenario_orders ''chart-canvas'' ''pie''
         (draw_calls
           [(scenario_orders, ''chart-canvas'', ''revenueOverTime''),
            (scenario_orders, ''chart-canvas'', ''pie''),
            (scenario_orders, ''chart-canvas'', ''revenueByCategory'')] initial_page)) = []"
proof -
  define calls where "calls =
    [(scenario_orders, ''chart-canvas'', ''revenueOverTime''),
     (scenario_orders, ''chart-canvas'', ''pie''),
     (scenario_orders, ''chart-canvas'', ''revenueByCategory'')]"
  have h: "charts initial_page = []" "chartInstance initial_page = None"
    by (simp_all add: initial_page_def)
  have m: "''topProducts'' \<in> set chart_modes" "''pie'' \<notin> set chart_modes"
    by (simp_all add: chart_modes_def)
  note t = drawChart_single_live_chart [OF h, of calls "''topProducts''" scenario_orders "''chart-canvas''"]
  note u = drawChart_single_live_chart [OF h, of calls "''pie''" scenario_orders "''chart-canvas''"]
  from t have a: "length (live_charts (draw_calls calls initial_page)) \<le> 1" by (rule conjunct1)
  from t m(1) obtain c where
    "live_charts (drawChart scenario_orders ''chart-canvas'' ''topProducts'' (draw_calls calls initial_page)) = [c]"
    by blast
  then have b: "length (live_charts (drawChart scenario_orders ''chart-canvas'' ''topProducts''
      (draw_calls calls initial_page))) = 1"
    by simp
  from u m(2) have c: "live_charts (drawChart scenario_orders ''chart-canvas'' ''pie''
      (draw_calls calls initial_page)) = []"
    by blast
  from h m a b c show ?thesis unfolding calls_def by blast
qed

subsection \<open>The start of the page\<close>



lemma min_date_None: "None \<in> set xs \<Longrightarrow> min_date xs = None"
proof (induction xs)
  case Nil
  then show ?case by simp
next
  case (Cons a xs)
  show ?case
  proof (cases xs)
    case Nil
    with Cons.prems show ?thesis by simp
  next
    case (Cons b r)
    show ?thesis
    proof (cases a)
      case None
      with Cons show ?thesis by simp
    next
      case (Some x)
      with Cons.prems have "None \<in> set xs" by auto
      with Cons.IH have "min_date xs = None" by simp
      with Some Cons show ?thesis by simp
    qed
  qed
qed


lemma setupFilters_invalid:
  assumes "\<exists>item \<in> set data. itemDate rt item = None"
  shows "setupFilters rt data p = Inl (RangeError, p)"
proof -
  from assms have "None \<in> set (map (itemDate rt) data)" by (auto simp: image_iff) metis
  then have "min_date (map (itemDate rt) data) = None" by (rule min_date_None)
  then show ?thesis by (simp add: setupFilters_def Let_def)
qed






text \<open>
  When a record of a non-empty list has an invalid date, \<open>setupFilters\<close> throws before
  any picker exists; the throw reaches the handler of \<open>catch\<close>.
\<close>

lemma DOMContentLoaded_invalid_date:
  assumes "app_html p = Some h" and "\<exists>item \<in> set data. itemDate rt item = None"
  shows "DOMContentLoaded rt (Resolved (Some data)) p
           = p\<lparr>console_error := console_error p @ [RangeError],
               app_html := Some ''<p>Failed to fetch data.</p>''\<rparr>"
proof -
  from assms(2) obtain item items where "data = item # items" by (cases data) auto
  with setupFilters_invalid[OF assms(2), of p] assms(1) show ?thesis
    by (simp add: DOMContentLoaded_def on_data_def on_catch_def Let_def)
qed

subsection \<open>Objects\<close>


















subsection \<open>The top category\<close>



lemma parseFloat_samples:
  "parseFloat ''100'' = Num 100" "parseFloat ''30'' = Num 30" "parseFloat ''50'' = Num 50"
  "parseFloat ''70'' = Num 70" "parseFloat ''150'' = Num 150"
  by (simp_all add: parseFloat_def read_sign_def is_space_def is_digit_def
      digits_val_def digit_val_def pow10_def read_exponent_def)

lemma not_array_index:
  "\<not> is_array_index ''A''" "\<not> is_array_index ''B''" "\<not> is_array_index ''Uncategorized''"
  "\<not> is_array_index ''Widget''" "\<not> is_array_index ''Gadget''"
  by (simp_all add: is_array_index_def is_digit_def)









subsection \<open>The top products\<close>















subsection \<open>Records without a category\<close>

text \<open>
  Claim C8 does not hold of the script. A record without a category counts under
  \<open>Uncategorized\<close> in the metrics only: selecting \<open>Uncategorized\<close> filters it out, the
  control gets an option with empty text and value for it, and the category chart
  labels its bar with the missing value itself.
\<close>

theorem absent_category_not_uniform:
  "categories (hd absent_category_orders) = Undefined
   \<and> revenueByCategory absent_category_orders = [(''Uncategorized'', Num 50)]
   \<and> topCategory absent_category_orders = ''Uncategorized''
   \<and> filteredData utc_runtime absent_category_orders (Some 1704067200000) (Some 1704067200000) ''all''
       = absent_category_orders
   \<and> filteredData utc_runtime absent_category_orders (Some 1704067200000) (Some 1704067200000)
         ''Uncategorized'' = []
   \<and> map option_value (category_options (populateCategoryFilter absent_category_orders initial_page))
       = [''all'', []]
   \<and> map option_text (category_options (populateCategoryFilter absent_category_orders initial_page))
       = [''All Categories'', []]
   \<and> labels (revenueByCategory_chart absent_category_orders ''chart-canvas'') = [Undefined]"
proof -
  have r: "revenueByCategory absent_category_orders = [(''Uncategorized'', Num 50)]"
    by (simp add: revenueByCategory_def absent_category_orders_def sample_order_def
        parseFloat_samples obj_get_def)
  have t: "topCategory absent_category_orders = ''Uncategorized''"
    by (simp add: topCategory_def r Object_keys_def Object_entries_def not_array_index
        obj_get_def js_gt_opt_def ToNumber_def)
  have f: "filteredData utc_runtime absent_category_orders (Some 1704067200000) (Some 1704067200000) c
       = (if c = ''all'' then absent_category_orders else [])" for c
    by (simp add: filteredData_def absent_category_orders_def sample_dates date_ge_def date_le_def)
       (simp add: sample_order_def)
  have o: "category_options (populateCategoryFilter absent_category_orders initial_page)
       = [new_Option (Str ''All Categories'') (Str ''all'') True True, new_Option Undefined Undefined False False]"
    by (simp add: populateCategoryFilter_eq absent_category_orders_def sample_order_def)
  have l: "labels (revenueByCategory_chart absent_category_orders ''chart-canvas'') = [Undefined]"
    by (simp add: revenueByCategory_chart_def chartCategories_def new_Set_first_seen
        absent_category_orders_def sample_order_def)
  have c: "categories (hd absent_category_orders) = Undefined"
    by (simp add: absent_category_orders_def sample_order_def)
  from c r t f[of "''all''"] f[of "''Uncategorized''"] l show ?thesis
    by (simp add: o new_Option_def)
qed

end
